theory Spec2Isabelle
  imports Complex_Main
begin

section \<open>Python strings\<close>

text \<open>
  Paths, keys and messages are \<^typ>\<open>string\<close>. The helpers below follow the Python
  \<open>str\<close> methods the sources call: \<open>s.startswith(p)\<close>, \<open>s.split(",")\<close>, \<open>s.strip()\<close>
  and \<open>s.upper()\<close>. An optional string (\<open>None\<close> or a \<open>str\<close>) is a
  \<^typ>\<open>string option\<close>.
\<close>

fun startswith :: "string \<Rightarrow> string \<Rightarrow> bool" where
  "startswith s [] = True"
| "startswith [] (p # ps) = False"
| "startswith (c # cs) (p # ps) = (c = p \<and> startswith cs ps)"

text \<open>\<open>s.split(sep)\<close> for a one-character separator: always at least one field.\<close>

fun split_on :: "char \<Rightarrow> string \<Rightarrow> string list" where
  "split_on sep [] = [[]]"
| "split_on sep (c # cs) =
     (if c = sep then [] # split_on sep cs
      else (case split_on sep cs of
              [] \<Rightarrow> [[c]]
            | f # fs \<Rightarrow> (c # f) # fs))"

text \<open>
  \<open>s.strip()\<close> removes from both ends the characters that count as whitespace, and
  \<open>s.upper()\<close> replaces each character by its uppercase form, which can be longer
  than one character. Which characters are whitespace and what their uppercase forms
  are is fixed by the Unicode tables of the Python runtime: both are parameters here, and
  a text that is trimmed or uppercased is a list of characters of any type \<open>'c\<close>.
\<close>

record 'c text_ops =
  isspace :: "'c \<Rightarrow> bool"
  upper_of :: "'c \<Rightarrow> 'c list"

definition lstrip :: "'c text_ops \<Rightarrow> 'c list \<Rightarrow> 'c list" where
  "lstrip tx s = dropWhile (isspace tx) s"

definition rstrip :: "'c text_ops \<Rightarrow> 'c list \<Rightarrow> 'c list" where
  "rstrip tx s = rev (dropWhile (isspace tx) (rev s))"

definition strip :: "'c text_ops \<Rightarrow> 'c list \<Rightarrow> 'c list" where
  "strip tx s = rstrip tx (lstrip tx s)"

definition upper :: "'c text_ops \<Rightarrow> 'c list \<Rightarrow> 'c list" where
  "upper tx s = concat (map (upper_of tx) s)"

text \<open>
  The two tables restricted to ASCII characters, where whitespace is tab, line feed,
  vertical tab, form feed, carriage return, the separators \<open>0x1c\<close> to \<open>0x1f\<close> and the
  space, and the letters a to z have the uppercase forms A to Z. They serve for the
  examples, whose texts are ASCII.
\<close>

definition ascii_isspace :: "char \<Rightarrow> bool" where
  "ascii_isspace c = (let n = of_char c :: nat in (9 \<le> n \<and> n \<le> 13) \<or> (28 \<le> n \<and> n \<le> 32))"

definition ascii_upper :: "char \<Rightarrow> string" where
  "ascii_upper c =
     (let n = of_char c :: nat in if 97 \<le> n \<and> n \<le> 122 then [char_of (n - 32)] else [c])"

definition ascii :: "char text_ops" where
  "ascii = \<lparr>isspace = ascii_isspace, upper_of = ascii_upper\<rparr>"

text \<open>Truthiness of an optional string, and Python's \<open>a or b\<close> on two of them.\<close>

fun truthy_str :: "string option \<Rightarrow> bool" where
  "truthy_str None = False"
| "truthy_str (Some s) = (s \<noteq> [])"

definition py_or :: "string option \<Rightarrow> string option \<Rightarrow> string option" where
  "py_or a b = (if truthy_str a then a else b)"

section \<open>Monolithic server: accepted keys and authentication middleware\<close>

text \<open>
  \<open>server/app.py\<close>, module level. \<open>env\<close> is the value of \<open>os.getenv("API_KEYS")\<close>:
  \<open>None\<close> when the variable is unset. The first list holds the built-in key and the list
  of keys from the environment; the second statement flattens it and drops empty keys.
\<close>

definition default_key :: string where
  "default_key = ''cb9c4299c9ac5437d74c22fad0314cc16e3615c4c802855fdc1287eb69dd57b4''"

definition env_keys :: "string option \<Rightarrow> string list" where
  "env_keys env =
     (if truthy_str env then split_on CHR '','' (case env of None \<Rightarrow> [] | Some s \<Rightarrow> s) else [])"

definition API_KEYS :: "string option \<Rightarrow> string list" where
  "API_KEYS env = filter (\<lambda>key. key \<noteq> []) (concat [[default_key], env_keys env])"

text \<open>
  A request, as far as the middlewares read it: the URL path and the headers.
  The outcome of a middleware is either the response of the downstream route
  (\<open>call_next\<close>), possibly with the \<open>X-Process-Time\<close> header added, or a JSON response
  of the middleware's own with a status code and a body.
\<close>

record request =
  path :: string
  headers :: "string \<rightharpoonup> string"

datatype body =
    ApiKeyHint  \<comment> \<open>the monolith's error, ok = False and hint\<close>
  | MISSING_API_KEY
  | INVALID_API_KEY

datatype response =
    CallNext
  | CallNextTimed
  | JSONResponse nat body

definition public_paths :: "string list" where
  "public_paths = [''/'', ''/health'']"

definition docs_paths :: "string list" where
  "docs_paths = [''/docs'', ''/redoc'', ''/openapi.json'']"

text \<open>The guard of the third branch: \<open>not API_KEYS or len(API_KEYS) == 0\<close>.\<close>

definition no_keys :: "string list \<Rightarrow> bool" where
  "no_keys keys = (keys = [] \<or> length keys = 0)"

definition auth_middleware :: "string list \<Rightarrow> request \<Rightarrow> response" where
  "auth_middleware keys req =
     (if list_ex (\<lambda>p. startswith (path req) p) public_paths then CallNext
      else if list_ex (\<lambda>p. startswith (path req) p) docs_paths then CallNext
      else if no_keys keys then CallNext
      else (let api_key = py_or (headers req ''AcessKey'') (headers req ''Authorization'') in
            case api_key of
              None \<Rightarrow> JSONResponse 401 ApiKeyHint
            | Some k \<Rightarrow>
                if k = [] \<or> k \<notin> set keys then JSONResponse 401 ApiKeyHint
                else CallNextTimed))"

section \<open>Layered server: authentication middleware\<close>

text \<open>
  \<open>SimpleAuthenticationService.validate_api_key\<close> over the configured key list, and
  \<open>AuthenticationMiddleware.dispatch\<close>. The public endpoints are a Python set; only
  membership of some prefix matters, so a list serves.
\<close>

definition validate_api_key :: "string list \<Rightarrow> string \<Rightarrow> bool" where
  "validate_api_key keys api_key = (if api_key = [] then False else api_key \<in> set keys)"

definition public_endpoints :: "string list" where
  "public_endpoints = [''/docs'', ''/redoc'', ''/openapi.json'', ''/health'', ''/'']"

definition dispatch :: "string list \<Rightarrow> request \<Rightarrow> response" where
  "dispatch keys req =
     (if list_ex (\<lambda>e. startswith (path req) e) public_endpoints then CallNext
      else (case py_or (headers req ''AcessKey'') (headers req ''Authorization'') of
              None \<Rightarrow> JSONResponse 401 MISSING_API_KEY
            | Some k \<Rightarrow>
                if k = [] then JSONResponse 401 MISSING_API_KEY
                else (let api_key = (if startswith k ''Bearer '' then drop 7 k else k) in
                      if \<not> validate_api_key keys api_key then JSONResponse 401 INVALID_API_KEY
                      else CallNextTimed)))"

section \<open>Numbers, time and exceptions\<close>

text \<open>
  Prices are \<open>Decimal\<close> values in the entities; comparisons of finite decimals are
  exact, so they are rationals here. A \<open>datetime\<close> is a number of seconds. Python
  exceptions are values of \<open>exn\<close>, and a computation that may raise returns
  \<open>exn + 'a\<close> with \<open>Inl\<close> for the exception.
\<close>

type_synonym decimal = rat
type_synonym datetime = nat

datatype exn =
    ValueError string
  | TypeError
  | InvalidOperation
  | TimeoutError
  | ClientError string
  | RuntimeError string
  | Exception string

section \<open>Client domain entities\<close>

text \<open>
  \<open>client/mt5_client/domain/entities\<close>. A frozen dataclass is a record; its
  \<open>__post_init__\<close> is the function that builds the record or raises. Field names carry
  a prefix per class (\<open>t_\<close> Ticker, \<open>pc_\<close> SymbolPercentChange, \<open>md_\<close> MarketData),
  since \<open>symbol\<close> and \<open>open\<close> occur in several classes and in the library.
  The \<open>volume\<close> annotation is \<open>int\<close>; Python stores whatever number it is given.
\<close>

record symbol_info =
  name :: string
  description :: string
  digits :: int
  point :: rat
  currency_base :: string
  currency_profit :: string
  currency_margin :: "string option"
  volume_min :: "rat option"
  volume_max :: "rat option"
  trade_mode :: "int option"

definition Symbol_post_init :: "symbol_info \<Rightarrow> exn + symbol_info" where
  "Symbol_post_init s =
     (if name s = [] then Inl (ValueError ''Symbol name cannot be empty'')
      else if digits s < 0 then Inl (ValueError ''Digits must be non-negative'')
      else if point s \<le> 0 then Inl (ValueError ''Point must be positive'')
      else Inr s)"

record ticker =
  t_symbol :: string
  t_time :: datetime
  t_open :: decimal
  t_high :: decimal
  t_low :: decimal
  t_close :: decimal
  t_volume :: rat

definition client_Ticker ::
  "string \<Rightarrow> datetime \<Rightarrow> decimal \<Rightarrow> decimal \<Rightarrow> decimal \<Rightarrow> decimal \<Rightarrow> rat \<Rightarrow> exn + ticker" where
  "client_Ticker smb tm opn hi lo cl vol =
     (if smb = [] then Inl (ValueError ''Symbol cannot be empty'')
      else if hi < lo then Inl (ValueError ''High must be >= Low'')
      else if \<not> (lo \<le> opn \<and> opn \<le> hi) then Inl (ValueError ''Open must be between Low and High'')
      else if \<not> (lo \<le> cl \<and> cl \<le> hi) then Inl (ValueError ''Close must be between Low and High'')
      else if vol < 0 then Inl (ValueError ''Volume cannot be negative'')
      else Inr \<lparr>t_symbol = smb, t_time = tm, t_open = opn, t_high = hi, t_low = lo,
                t_close = cl, t_volume = vol\<rparr>)"

definition body :: "ticker \<Rightarrow> decimal" where
  "body t = t_close t - t_open t"

definition is_bullish :: "ticker \<Rightarrow> bool" where
  "is_bullish t = (t_close t > t_open t)"

definition range_value :: "ticker \<Rightarrow> decimal" where
  "range_value t = t_high t - t_low t"

record pct_change_entity =
  pc_symbol :: string
  pc_pct_change :: decimal
  pc_error :: "string option"

definition SymbolPercentChange_post_init :: "pct_change_entity \<Rightarrow> exn + pct_change_entity" where
  "SymbolPercentChange_post_init p =
     (if pc_symbol p = [] then Inl (ValueError ''Symbol cannot be empty'') else Inr p)"

definition is_valid :: "pct_change_entity \<Rightarrow> bool" where
  "is_valid p = (pc_error p = None)"

definition is_positive :: "pct_change_entity \<Rightarrow> bool" where
  "is_positive p = (is_valid p \<and> pc_pct_change p > 0)"

definition is_negative :: "pct_change_entity \<Rightarrow> bool" where
  "is_negative p = (is_valid p \<and> pc_pct_change p < 0)"

definition trend_strength :: "pct_change_entity \<Rightarrow> string" where
  "trend_strength p =
     (if \<not> is_valid p then ''INVALID''
      else (let abs_change = \<bar>pc_pct_change p\<bar> in
            if abs_change \<ge> 2 then ''STRONG''
            else if abs_change \<ge> 1 then ''MODERATE''
            else if abs_change \<ge> 1 / 2 then ''WEAK''
            else ''MINIMAL''))"

record market_data =
  md_symbol :: symbol_info
  md_latest_ticker :: "ticker option"
  md_tickers :: "ticker list option"
  md_percent_change :: "pct_change_entity option"

text \<open>
  Truthiness of an optional list (\<open>None\<close> and \<open>[]\<close> are false). An optional dataclass
  instance is false only when it is \<open>None\<close>; an optional \<open>Decimal\<close> is false when it is
  \<open>None\<close> or zero.
\<close>

fun truthy_list :: "'a list option \<Rightarrow> bool" where
  "truthy_list None = False"
| "truthy_list (Some xs) = (xs \<noteq> [])"

fun truthy_decimal :: "decimal option \<Rightarrow> bool" where
  "truthy_decimal None = False"
| "truthy_decimal (Some d) = (d \<noteq> 0)"

definition MarketData_post_init :: "market_data \<Rightarrow> exn + market_data" where
  "MarketData_post_init m =
     (if (case md_latest_ticker m of None \<Rightarrow> False | Some t \<Rightarrow> t_symbol t \<noteq> name (md_symbol m))
      then Inl (ValueError ''Latest ticker symbol must match symbol name'')
      else if (case md_tickers m of None \<Rightarrow> False
               | Some ts \<Rightarrow> list_ex (\<lambda>t. t_symbol t \<noteq> name (md_symbol m)) ts)
      then Inl (ValueError ''All tickers must match symbol name'')
      else if (case md_percent_change m of None \<Rightarrow> False
               | Some p \<Rightarrow> pc_symbol p \<noteq> name (md_symbol m))
      then Inl (ValueError ''Percent change symbol must match symbol name'')
      else Inr m)"

definition current_price :: "market_data \<Rightarrow> decimal option" where
  "current_price m =
     (case md_latest_ticker m of
        Some t \<Rightarrow> Some (t_close t)
      | None \<Rightarrow>
          (case md_tickers m of
             None \<Rightarrow> None
           | Some ts \<Rightarrow> if ts \<noteq> [] \<and> length ts > 0 then Some (t_close (last ts)) else None))"

text \<open>\<open>min(lows), max(highs)\<close> over a non-empty list.\<close>

definition calculate_price_range :: "market_data \<Rightarrow> (decimal \<times> decimal) option" where
  "calculate_price_range m =
     (if \<not> truthy_list (md_tickers m) then None
      else (case md_tickers m of
              None \<Rightarrow> None
            | Some ts \<Rightarrow>
                (let lows = map t_low ts; highs = map t_high ts
                 in Some (fold min (tl lows) (hd lows), fold max (tl highs) (hd highs)))))"

section \<open>Client response DTOs\<close>

text \<open>
  \<open>client/mt5_client/application/dtos\<close>. A Python \<open>float\<close> holds a rational; the
  conversion \<open>float(d)\<close> of a decimal is kept as a function of its own. It returns the
  value itself: the rounding to the nearest binary64 number is not modelled, and zero,
  the only value the results below evaluate it at, converts exactly.
  \<open>SymbolResponse\<close> has the fields of the entity and \<open>from_entity\<close> copies each.
\<close>

type_synonym pyfloat = rat

definition float_of :: "decimal \<Rightarrow> pyfloat" where
  "float_of d = d"

record ticker_response =
  tr_symbol :: string
  tr_time :: datetime
  tr_open :: pyfloat
  tr_high :: pyfloat
  tr_low :: pyfloat
  tr_close :: pyfloat
  tr_volume :: rat
  tr_body :: "pyfloat option"
  tr_is_bullish :: "bool option"
  tr_range_value :: "pyfloat option"

definition TickerResponse_from_entity :: "ticker \<Rightarrow> ticker_response" where
  "TickerResponse_from_entity t =
     \<lparr>tr_symbol = t_symbol t, tr_time = t_time t, tr_open = float_of (t_open t),
      tr_high = float_of (t_high t), tr_low = float_of (t_low t),
      tr_close = float_of (t_close t), tr_volume = t_volume t,
      tr_body = Some (float_of (body t)), tr_is_bullish = Some (is_bullish t),
      tr_range_value = Some (float_of (range_value t))\<rparr>"

record pct_change_response =
  pr_symbol :: string
  pr_pct_change :: pyfloat
  pr_error :: "string option"
  pr_trend_strength :: "string option"

definition SymbolPctChangeResponse_from_entity :: "pct_change_entity \<Rightarrow> pct_change_response" where
  "SymbolPctChangeResponse_from_entity p =
     \<lparr>pr_symbol = pc_symbol p, pr_pct_change = float_of (pc_pct_change p),
      pr_error = pc_error p, pr_trend_strength = Some (trend_strength p)\<rparr>"

definition SymbolResponse_from_entity :: "symbol_info \<Rightarrow> symbol_info" where
  "SymbolResponse_from_entity s = s"

record market_data_response =
  mr_symbol :: symbol_info
  mr_latest_ticker :: "ticker_response option"
  mr_tickers :: "ticker_response list option"
  mr_percent_change :: "pct_change_response option"
  mr_current_price :: "pyfloat option"
  mr_price_range :: "(pyfloat \<times> pyfloat) option"

definition MarketDataResponse_from_entity :: "market_data \<Rightarrow> market_data_response" where
  "MarketDataResponse_from_entity m =
     (let tickers_dto =
            (if truthy_list (md_tickers m)
             then map_option (map TickerResponse_from_entity) (md_tickers m) else None);
          latest_ticker_dto = map_option TickerResponse_from_entity (md_latest_ticker m);
          percent_change_dto =
            map_option SymbolPctChangeResponse_from_entity (md_percent_change m);
          price_range =
            map_option (\<lambda>r. (float_of (fst r), float_of (snd r))) (calculate_price_range m)
      in \<lparr>mr_symbol = SymbolResponse_from_entity (md_symbol m),
          mr_latest_ticker = latest_ticker_dto,
          mr_tickers = tickers_dto,
          mr_percent_change = percent_change_dto,
          mr_current_price =
            (if truthy_decimal (current_price m) then map_option float_of (current_price m)
             else None),
          mr_price_range = price_range\<rparr>)"

section \<open>Layered server domain entities\<close>

text \<open>
  \<open>server/src/domain/entities\<close>: the \<open>Ticker\<close> dataclass with its \<open>__post_init__\<close>, and
  \<open>TradeRequest\<close> with \<open>validate\<close>. The test \<open>self.price and self.stop_loss and
  self.take_profit\<close> is on truthiness: a level that is \<open>None\<close> or zero fails it.
\<close>

datatype TimeFrame = M1 | M5 | M15 | M30 | H1 | H4 | D1 | W1 | MN1

datatype OrderType = BUY | SELL

record server_ticker =
  symbol :: string
  timeframe :: TimeFrame
  timestamp :: datetime
  open_price :: decimal
  high_price :: decimal
  low_price :: decimal
  close_price :: decimal
  volume :: int

definition server_Ticker ::
  "string \<Rightarrow> TimeFrame \<Rightarrow> datetime \<Rightarrow> decimal \<Rightarrow> decimal \<Rightarrow> decimal \<Rightarrow> decimal \<Rightarrow> int
   \<Rightarrow> exn + server_ticker" where
  "server_Ticker smb tf ts opn hi lo cl vol =
     (if smb = [] then Inl (ValueError ''Symbol cannot be empty'')
      else if hi < max opn cl then Inl (ValueError ''High price must be >= open and close prices'')
      else if lo > min opn cl then Inl (ValueError ''Low price must be <= open and close prices'')
      else if vol < 0 then Inl (ValueError ''Volume must be non-negative'')
      else Inr \<lparr>symbol = smb, timeframe = tf, timestamp = ts, open_price = opn,
                high_price = hi, low_price = lo, close_price = cl, volume = vol\<rparr>)"

record TradeRequest =
  rq_symbol :: string
  rq_volume :: decimal
  rq_order_type :: OrderType
  rq_price :: "decimal option"
  rq_stop_loss :: "decimal option"
  rq_take_profit :: "decimal option"
  rq_deviation :: int
  rq_comment :: string
  rq_magic_number :: int

definition check_levels :: "OrderType \<Rightarrow> decimal \<Rightarrow> decimal \<Rightarrow> decimal \<Rightarrow> exn + unit" where
  "check_levels ot price sl tp =
     (case ot of
        BUY \<Rightarrow>
          if sl \<ge> price then Inl (ValueError ''Stop loss must be below entry price for BUY orders'')
          else if tp \<le> price
          then Inl (ValueError ''Take profit must be above entry price for BUY orders'')
          else Inr ()
      | SELL \<Rightarrow>
          if sl \<le> price then Inl (ValueError ''Stop loss must be above entry price for SELL orders'')
          else if tp \<ge> price
          then Inl (ValueError ''Take profit must be below entry price for SELL orders'')
          else Inr ())"

definition validate :: "TradeRequest \<Rightarrow> exn + unit" where
  "validate r =
     (if rq_symbol r = [] then Inl (ValueError ''Symbol cannot be empty'')
      else if rq_volume r \<le> 0 then Inl (ValueError ''Volume must be positive'')
      else if rq_deviation r < 0 then Inl (ValueError ''Deviation must be non-negative'')
      else if truthy_decimal (rq_price r) \<and> truthy_decimal (rq_stop_loss r)
              \<and> truthy_decimal (rq_take_profit r)
      then (case (rq_price r, rq_stop_loss r, rq_take_profit r) of
              (Some price, Some sl, Some tp) \<Rightarrow> check_levels (rq_order_type r) price sl tp
            | _ \<Rightarrow> Inr ())
      else Inr ())"

text \<open>
  The condition under which the specification says \<open>validate\<close> raises, in its words:
  the levels are compared whenever all three are given.
\<close>

definition wrong_side :: "OrderType \<Rightarrow> decimal \<Rightarrow> decimal \<Rightarrow> decimal \<Rightarrow> bool" where
  "wrong_side ot price sl tp =
     (case ot of BUY \<Rightarrow> sl \<ge> price \<or> tp \<le> price
               | SELL \<Rightarrow> sl \<le> price \<or> tp \<ge> price)"

definition spec_validate_raises :: "TradeRequest \<Rightarrow> bool" where
  "spec_validate_raises r =
     (rq_symbol r = [] \<or> rq_volume r \<le> 0 \<or> rq_deviation r < 0
      \<or> (case (rq_price r, rq_stop_loss r, rq_take_profit r) of
            (Some price, Some sl, Some tp) \<Rightarrow> wrong_side (rq_order_type r) price sl tp
          | _ \<Rightarrow> False))"

text \<open>The same condition with the levels compared only when each is given and not zero.\<close>

definition validate_raises :: "TradeRequest \<Rightarrow> bool" where
  "validate_raises r =
     (rq_symbol r = [] \<or> rq_volume r \<le> 0 \<or> rq_deviation r < 0
      \<or> (case (rq_price r, rq_stop_loss r, rq_take_profit r) of
            (Some price, Some sl, Some tp) \<Rightarrow>
              price \<noteq> 0 \<and> sl \<noteq> 0 \<and> tp \<noteq> 0 \<and> wrong_side (rq_order_type r) price sl tp
          | _ \<Rightarrow> False))"

text \<open>
  The request of the specification's example: a BUY at 1.1000 with take profit 1.1050
  and the given stop loss, the other fields at their defaults.
\<close>

definition buy_example :: "decimal \<Rightarrow> TradeRequest" where
  "buy_example sl =
     \<lparr>rq_symbol = ''EURUSD'', rq_volume = 1, rq_order_type = BUY,
      rq_price = Some 1.1000, rq_stop_loss = Some sl, rq_take_profit = Some 1.1050,
      rq_deviation = 20, rq_comment = [], rq_magic_number = 234000\<rparr>"

section \<open>Client market analysis\<close>

text \<open>
  \<open>MarketAnalysisUseCase.analyze_symbols\<close>, after its two repository calls have
  returned the market data and the percent changes. \<open>avg_change\<close> is a \<open>Decimal\<close>
  ratio, taken exactly here. The threshold \<open>total_count * 0.6\<close> is a binary64
  product that Python compares exactly with the integer count; it is the exact product
  with 6/10 here.
\<close>

record statistics =
  total_symbols :: nat
  valid_symbols :: nat
  positive_count :: nat
  negative_count :: nat
  average_change :: pyfloat
  market_sentiment :: string

record analysis =
  an_market_data :: "market_data_response list"
  an_percent_changes :: "pct_change_response list"
  an_statistics :: statistics

definition analyze_symbols ::
  "string list \<Rightarrow> market_data list \<Rightarrow> pct_change_entity list \<Rightarrow> analysis" where
  "analyze_symbols symbols market_data_list pct_changes =
     (let valid_changes = filter is_valid pct_changes;
          (market_sentiment, avg_change, positive_count, negative_count) =
            (if valid_changes \<noteq> [] then
               (let positive_count = length (filter is_positive valid_changes);
                    negative_count = length (filter is_negative valid_changes);
                    total_count = length valid_changes;
                    avg_change = sum_list (map pc_pct_change valid_changes) / of_nat total_count
                in (if of_nat positive_count > of_nat total_count * (6 / 10 :: rat) then ''bullish''
                    else if of_nat negative_count > of_nat total_count * (6 / 10 :: rat)
                    then ''bearish'' else ''neutral'',
                    avg_change, positive_count, negative_count))
             else (''unknown'', 0, 0, 0))
      in \<lparr>an_market_data = map MarketDataResponse_from_entity market_data_list,
          an_percent_changes = map SymbolPctChangeResponse_from_entity pct_changes,
          an_statistics =
            \<lparr>total_symbols = length symbols,
             valid_symbols = length valid_changes,
             positive_count = positive_count,
             negative_count = negative_count,
             average_change = float_of avg_change,
             market_sentiment = market_sentiment\<rparr>\<rparr>)"

text \<open>The percent change \<open>x\<close> of a symbol, without an error.\<close>

definition change :: "decimal \<Rightarrow> pct_change_entity" where
  "change x = \<lparr>pc_symbol = ''S'', pc_pct_change = x, pc_error = None\<rparr>"

section \<open>Layered server: request validator\<close>

text \<open>
  \<open>GetSymbolsPercentChangeRequest.validate_symbol_list\<close>, the validator of the field
  \<open>actives\<close>; its return value replaces the submitted list.
\<close>

definition validate_symbol_list :: "'c text_ops \<Rightarrow> 'c list list \<Rightarrow> exn + 'c list list" where
  "validate_symbol_list tx v =
     (if v = [] then Inl (ValueError ''Symbol list cannot be empty'')
      else Inr (map (\<lambda>symbol. upper tx (strip tx symbol))
                 (filter (\<lambda>symbol. strip tx symbol \<noteq> []) v)))"

section \<open>Client HTTP transport\<close>

text \<open>
  \<open>HttpClient.post\<close> and \<open>HttpClient.get\<close>. \<open>send attempt\<close> is what the body of the
  \<open>try\<close> does on the given attempt: it returns the decoded response, or raises.
  \<open>asyncio.TimeoutError\<close> and \<open>aiohttp.ClientError\<close> are the two exceptions the loop
  catches; any other leaves the call at once. The log counts the requests sent and
  lists the sleeps in order. The two methods have the same loop, over
  \<open>range(max_retries)\<close>; the statement after the loop raises the generic failure.
\<close>

record ApiConfig =
  base_url :: string
  api_key :: "string option"
  timeout :: int
  max_retries :: int
  retry_delay :: pyfloat
  verify_ssl :: bool

record io_log =
  requests :: nat
  sleeps :: "pyfloat list"

fun retryable :: "exn \<Rightarrow> bool" where
  "retryable TimeoutError = True"
| "retryable (ClientError e) = True"
| "retryable other = False"

fun retry_loop ::
  "ApiConfig \<Rightarrow> (nat \<Rightarrow> exn + 'r) \<Rightarrow> nat list \<Rightarrow> io_log \<Rightarrow> (exn + 'r) \<times> io_log" where
  "retry_loop cfg send [] io = (Inl (Exception ''Failed after max_retries attempts''), io)"
| "retry_loop cfg send (attempt # rest) io =
     (let io1 = io\<lparr>requests := requests io + 1\<rparr> in
      case send attempt of
        Inr result \<Rightarrow> (Inr result, io1)
      | Inl e \<Rightarrow>
          if retryable e then
            (if int attempt = max_retries cfg - 1 then (Inl e, io1)
             else retry_loop cfg send rest (io1\<lparr>sleeps := sleeps io1 @ [retry_delay cfg]\<rparr>))
          else (Inl e, io1))"

definition post :: "ApiConfig \<Rightarrow> (nat \<Rightarrow> exn + 'r) \<Rightarrow> io_log \<Rightarrow> (exn + 'r) \<times> io_log" where
  "post cfg send io = retry_loop cfg send [0..<nat (max_retries cfg)] io"

definition get :: "ApiConfig \<Rightarrow> (nat \<Rightarrow> exn + 'r) \<Rightarrow> io_log \<Rightarrow> (exn + 'r) \<times> io_log" where
  "get cfg send io = retry_loop cfg send [0..<nat (max_retries cfg)] io"

text \<open>
  The default configuration, and a transport that times out, then fails with a client
  error, then answers: the first one always, the second one on the third attempt.
\<close>

definition default_config :: ApiConfig where
  "default_config =
     \<lparr>base_url = ''http://localhost:8000'', api_key = None, timeout = 30, max_retries = 3,
      retry_delay = 1, verify_ssl = True\<rparr>"

definition always_failing :: "nat \<Rightarrow> exn + string" where
  "always_failing attempt = (if attempt = 0 then Inl TimeoutError else Inl (ClientError ''reset''))"

definition third_time_lucky :: "nat \<Rightarrow> exn + string" where
  "third_time_lucky attempt =
     (if attempt = 0 then Inl TimeoutError
      else if attempt = 1 then Inl (ClientError ''reset'')
      else Inr ''ok'')"

section \<open>Client ticker adapter\<close>

text \<open>
  \<open>TickerRepositoryAdapter._map_to_ticker\<close>. A JSON object is a map from keys to JSON
  values, and \<open>d.get(k, default)\<close> reads it. \<open>Decimal(str(x))\<close> of a JSON number is the
  number; of a string it is what the text denotes, given by the parameter
  \<open>parse_decimal\<close> (\<open>None\<close> where \<open>Decimal\<close> raises \<open>InvalidOperation\<close>); of any other
  JSON value it raises, since \<open>None\<close>, \<open>True\<close>, a list and an object print as text
  that is no number. \<open>strptime\<close> is the parser of the format
  \<open>%Y-%m-%d %H:%M:%S\<close> (\<open>None\<close> where it raises \<open>ValueError\<close>), and \<open>now\<close> is the
  value of \<open>datetime.now()\<close>. The arguments of \<open>Ticker\<close> are evaluated in order, the time
  first. The volume is passed as it is: a number is compared with 0 by \<open>__post_init__\<close>,
  a boolean counts as 0 or 1, and any other value raises \<open>TypeError\<close> at that comparison,
  that is, after the checks before it have passed.
\<close>

datatype json =
    JNull
  | JBool bool
  | JNum rat
  | JStr string
  | JArr "json list"
  | JObj "(string \<times> json) list"

fun truthy_json :: "json \<Rightarrow> bool" where
  "truthy_json JNull = False"
| "truthy_json (JBool b) = b"
| "truthy_json (JNum r) = (r \<noteq> 0)"
| "truthy_json (JStr s) = (s \<noteq> [])"
| "truthy_json (JArr xs) = (xs \<noteq> [])"
| "truthy_json (JObj kvs) = (kvs \<noteq> [])"

definition dict_get :: "(string \<rightharpoonup> json) \<Rightarrow> string \<Rightarrow> json \<Rightarrow> json" where
  "dict_get d k dflt = (case d k of None \<Rightarrow> dflt | Some v \<Rightarrow> v)"

fun Decimal_of_str :: "(string \<Rightarrow> decimal option) \<Rightarrow> json \<Rightarrow> exn + decimal" where
  "Decimal_of_str parse_decimal (JNum r) = Inr r"
| "Decimal_of_str parse_decimal (JStr s) =
     (case parse_decimal s of None \<Rightarrow> Inl InvalidOperation | Some d \<Rightarrow> Inr d)"
| "Decimal_of_str parse_decimal other = Inl InvalidOperation"

fun time_of :: "(string \<Rightarrow> datetime option) \<Rightarrow> datetime \<Rightarrow> json \<Rightarrow> exn + datetime" where
  "time_of strptime now (JStr s) =
     (if s \<noteq> [] then
        (case strptime s of
           None \<Rightarrow> Inl (ValueError ''time data does not match format'')
         | Some t \<Rightarrow> Inr t)
      else Inr now)"
| "time_of strptime now other = (if truthy_json other then Inl TypeError else Inr now)"

fun Ticker_with_volume ::
  "string \<Rightarrow> datetime \<Rightarrow> decimal \<Rightarrow> decimal \<Rightarrow> decimal \<Rightarrow> decimal \<Rightarrow> json \<Rightarrow> exn + ticker" where
  "Ticker_with_volume smb tm opn hi lo cl (JNum v) = client_Ticker smb tm opn hi lo cl v"
| "Ticker_with_volume smb tm opn hi lo cl (JBool b) =
     client_Ticker smb tm opn hi lo cl (if b then 1 else 0)"
| "Ticker_with_volume smb tm opn hi lo cl other =
     (case client_Ticker smb tm opn hi lo cl 0 of Inl e \<Rightarrow> Inl e | Inr t \<Rightarrow> Inl TypeError)"

definition map_to_ticker ::
  "(string \<Rightarrow> decimal option) \<Rightarrow> (string \<Rightarrow> datetime option) \<Rightarrow> datetime
   \<Rightarrow> (string \<rightharpoonup> json) \<Rightarrow> string \<Rightarrow> exn + ticker" where
  "map_to_ticker parse_decimal strptime now ticker_data smb =
     (let time_str = dict_get ticker_data ''time'' (JStr []) in
      case time_of strptime now time_str of
        Inl e \<Rightarrow> Inl e
      | Inr time_obj \<Rightarrow>
     (case Decimal_of_str parse_decimal (dict_get ticker_data ''open'' (JNum 0)) of
        Inl e \<Rightarrow> Inl e
      | Inr opn \<Rightarrow>
     (case Decimal_of_str parse_decimal (dict_get ticker_data ''high'' (JNum 0)) of
        Inl e \<Rightarrow> Inl e
      | Inr hi \<Rightarrow>
     (case Decimal_of_str parse_decimal (dict_get ticker_data ''low'' (JNum 0)) of
        Inl e \<Rightarrow> Inl e
      | Inr lo \<Rightarrow>
     (case Decimal_of_str parse_decimal (dict_get ticker_data ''close'' (JNum 0)) of
        Inl e \<Rightarrow> Inl e
      | Inr cl \<Rightarrow>
          Ticker_with_volume smb time_obj opn hi lo cl
            (dict_get ticker_data ''volume'' (JNum 0)))))))"

text \<open>
  Parsers that accept no text, a clock reading, and a JSON candle that has its high
  and low prices and an empty time string, nothing else.
\<close>

definition no_decimal :: "string \<Rightarrow> decimal option" where
  "no_decimal s = None"

definition no_time :: "string \<Rightarrow> datetime option" where
  "no_time s = None"

definition clock :: datetime where
  "clock = 1700000000"

definition high_low_only :: "string \<rightharpoonup> json" where
  "high_low_only = [''high'' \<mapsto> JNum 2, ''low'' \<mapsto> JNum (- 1), ''time'' \<mapsto> JStr []]"

section \<open>Percent change of a symbol batch\<close>


































section \<open>Example values\<close>

text \<open>
  A EURUSD symbol and a candle whose prices and volume are all zero, as the client's
  ticker adapter builds it from a JSON object without fields, and the aggregate holding
  that candle as its latest ticker.
\<close>

definition eurusd :: symbol_info where
  "eurusd =
     \<lparr>name = ''EURUSD'', description = ''Euro vs US Dollar'', digits = 5, point = 1 / 100000,
      currency_base = ''EUR'', currency_profit = ''USD'', currency_margin = None,
      volume_min = None, volume_max = None, trade_mode = None\<rparr>"

definition zero_candle :: ticker where
  "zero_candle =
     \<lparr>t_symbol = ''EURUSD'', t_time = 0, t_open = 0, t_high = 0, t_low = 0, t_close = 0,
      t_volume = 0\<rparr>"

definition zero_market_data :: market_data where
  "zero_market_data =
     \<lparr>md_symbol = eurusd, md_latest_ticker = Some zero_candle, md_tickers = Some [zero_candle],
      md_percent_change = None\<rparr>"

section \<open>Results\<close>

text \<open>
  C10. Whatever the environment variable \<open>API_KEYS\<close> holds, set or unset, the monolith's
  accepted-key list contains the built-in key and is not empty, so the guard of the
  middleware branch that lets every request through when no key is configured is false.
\<close>

theorem API_KEYS_has_default:
  "default_key \<in> set (API_KEYS env) \<and> API_KEYS env \<noteq> [] \<and> \<not> no_keys (API_KEYS env)"
proof -
  have d: "default_key \<noteq> []"
    by (simp add: default_key_def)
  have m: "default_key \<in> set (API_KEYS env)"
    using d by (simp add: API_KEYS_def)
  then have n: "API_KEYS env \<noteq> []"
    by auto
  from m n show ?thesis
    by (simp add: no_keys_def)
qed

lemma rooted_path_forwarded:
  "path req = CHR ''/'' # rest
   \<Longrightarrow> auth_middleware keys req = CallNext \<and> dispatch keys req = CallNext"
  by (simp add: auth_middleware_def dispatch_def public_paths_def public_endpoints_def)

text \<open>
  C1. The claim asks for status 401 on a protected path without an accepted key. Both
  middlewares test the public paths with \<open>startswith\<close>, and the public path \<open>/\<close> is a
  prefix of every URL path: a request to \<open>/GetSymbols/\<close> that carries no key at all is
  handed to the route by the monolith (with the built-in key configured) and by the
  layered server alike.
\<close>

theorem auth_bypassed_on_GetSymbols:
  "auth_middleware (API_KEYS None) \<lparr>path = ''/GetSymbols/'', headers = Map.empty\<rparr> = CallNext
   \<and> dispatch [default_key] \<lparr>path = ''/GetSymbols/'', headers = Map.empty\<rparr> = CallNext"
  by (simp add: auth_middleware_def dispatch_def public_paths_def public_endpoints_def)

text \<open>
  C3. For every symbol, timestamp, prices and volume, the client \<open>Ticker\<close> and the layered
  server \<open>Ticker\<close> are constructed exactly when the symbol is not empty, the high is at
  least the larger of open and close, the low is at most the smaller of them, and the
  volume is not negative; every other construction raises a \<open>ValueError\<close>. With open
  1.10, close 1.12 and high 1.11 the construction fails, whatever the other fields are.
\<close>

theorem Ticker_constructs_iff:
  "((\<exists>t. client_Ticker smb tm opn hi lo cl vol = Inr t)
      = (smb \<noteq> [] \<and> hi \<ge> max opn cl \<and> lo \<le> min opn cl \<and> vol \<ge> 0))
   \<and> ((\<exists>msg. client_Ticker smb tm opn hi lo cl vol = Inl (ValueError msg))
      = (\<not> (smb \<noteq> [] \<and> hi \<ge> max opn cl \<and> lo \<le> min opn cl \<and> vol \<ge> 0)))
   \<and> ((\<exists>t. server_Ticker smb tf tm opn hi lo cl ivol = Inr t)
      = (smb \<noteq> [] \<and> hi \<ge> max opn cl \<and> lo \<le> min opn cl \<and> ivol \<ge> 0))
   \<and> ((\<exists>msg. server_Ticker smb tf tm opn hi lo cl ivol = Inl (ValueError msg))
      = (\<not> (smb \<noteq> [] \<and> hi \<ge> max opn cl \<and> lo \<le> min opn cl \<and> ivol \<ge> 0)))
   \<and> isl (client_Ticker smb tm 1.10 1.11 lo 1.12 vol)
   \<and> isl (server_Ticker smb tf tm 1.10 1.11 lo 1.12 ivol)"
proof -
  have c1: "(\<exists>t. client_Ticker smb tm opn hi lo cl vol = Inr t)
      = (smb \<noteq> [] \<and> hi \<ge> max opn cl \<and> lo \<le> min opn cl \<and> vol \<ge> 0)"
    by (auto simp: client_Ticker_def)
  have c2: "(\<exists>msg. client_Ticker smb tm opn hi lo cl vol = Inl (ValueError msg))
      = (\<not> (smb \<noteq> [] \<and> hi \<ge> max opn cl \<and> lo \<le> min opn cl \<and> vol \<ge> 0))"
    by (auto simp: client_Ticker_def)
  have s1: "(\<exists>t. server_Ticker smb tf tm opn hi lo cl ivol = Inr t)
      = (smb \<noteq> [] \<and> hi \<ge> max opn cl \<and> lo \<le> min opn cl \<and> ivol \<ge> 0)"
    by (auto simp: server_Ticker_def)
  have s2: "(\<exists>msg. server_Ticker smb tf tm opn hi lo cl ivol = Inl (ValueError msg))
      = (\<not> (smb \<noteq> [] \<and> hi \<ge> max opn cl \<and> lo \<le> min opn cl \<and> ivol \<ge> 0))"
    by (auto simp: server_Ticker_def)
  have e1: "isl (client_Ticker smb tm 1.10 1.11 lo 1.12 vol)"
    by (simp add: client_Ticker_def)
  have e2: "isl (server_Ticker smb tf tm 1.10 1.11 lo 1.12 ivol)"
    by (simp add: server_Ticker_def)
  from c1 c2 s1 s2 e1 e2 show ?thesis by blast
qed

lemma check_levels_raises:
  "(\<exists>msg. check_levels ot p sl tp = Inl (ValueError msg)) = wrong_side ot p sl tp"
  by (cases ot) (auto simp: check_levels_def wrong_side_def)

lemma check_levels_passes:
  "(check_levels ot p sl tp = Inr ()) = (\<not> wrong_side ot p sl tp)"
  by (cases ot) (auto simp: check_levels_def wrong_side_def)

text \<open>
  C7, as stated, fails: a BUY at 1.1000 with stop loss 1.1010, above the price, and a
  take profit of zero has all three levels given and the stop loss on the wrong side, so
  the stated condition says \<open>validate\<close> raises; it returns.
\<close>

theorem validate_zero_level_counterexample:
  "spec_validate_raises ((buy_example 1.1010) \<lparr>rq_take_profit := Some 0\<rparr>)
   \<and> validate ((buy_example 1.1010) \<lparr>rq_take_profit := Some 0\<rparr>) = Inr ()"
  by (simp add: spec_validate_raises_def validate_def buy_example_def wrong_side_def)

text \<open>
  C7, amended. \<open>validate\<close> raises (a \<open>ValueError\<close>) exactly when the symbol is empty, the
  volume is not positive, the deviation is negative, or price, stop loss and take
  profit are all given and all different from zero and a protective level is on the
  wrong side of the price; otherwise it returns. The BUY at 1.1000 with stop loss 1.0990
  and take profit 1.1050 passes, and the same request with stop loss 1.1010 fails.
\<close>

theorem validate_raises_iff:
  "((\<exists>msg. validate r = Inl (ValueError msg)) = validate_raises r)
   \<and> ((validate r = Inr ()) = (\<not> validate_raises r))
   \<and> validate (buy_example 1.0990) = Inr ()
   \<and> isl (validate (buy_example 1.1010))"
proof -
  have a: "(\<exists>msg. validate r = Inl (ValueError msg)) = validate_raises r"
    by (cases "rq_price r"; cases "rq_stop_loss r"; cases "rq_take_profit r")
       (auto simp: validate_def validate_raises_def check_levels_raises)
  have b: "(validate r = Inr ()) = (\<not> validate_raises r)"
    by (cases "rq_price r"; cases "rq_stop_loss r"; cases "rq_take_profit r")
       (auto simp: validate_def validate_raises_def check_levels_passes)
  have c: "validate (buy_example 1.0990) = Inr ()"
    by (simp add: validate_def buy_example_def check_levels_def)
  have d: "isl (validate (buy_example 1.1010))"
    by (simp add: validate_def buy_example_def check_levels_def)
  from a b c d show ?thesis by blast
qed

text \<open>
  C5. The claim asks that the \<open>current_price\<close> of the response DTO equal the aggregate's
  own derivation for every price. The all-zero EURUSD candle is a valid \<open>Ticker\<close> and the
  aggregate holding it is a valid \<open>MarketData\<close> whose \<open>current_price\<close> is 0; in the DTO
  made from it the latest ticker's close is 0.0 and the price range is (0.0, 0.0), but
  \<open>current_price\<close> is \<open>None\<close>.
\<close>

theorem zero_price_lost_in_response:
  "Symbol_post_init eurusd = Inr eurusd
   \<and> client_Ticker ''EURUSD'' 0 0 0 0 0 0 = Inr zero_candle
   \<and> MarketData_post_init zero_market_data = Inr zero_market_data
   \<and> current_price zero_market_data = Some 0
   \<and> mr_current_price (MarketDataResponse_from_entity zero_market_data) = None
   \<and> map_option tr_close (mr_latest_ticker (MarketDataResponse_from_entity zero_market_data))
       = Some 0
   \<and> mr_price_range (MarketDataResponse_from_entity zero_market_data) = Some (0, 0)"
  by (simp add: Symbol_post_init_def client_Ticker_def zero_candle_def MarketData_post_init_def
      zero_market_data_def eurusd_def current_price_def MarketDataResponse_from_entity_def
      TickerResponse_from_entity_def calculate_price_range_def float_of_def)

lemma strip_empty_iff: "(strip tx s = []) = list_all (isspace tx) s"
proof -
  have a: "(rstrip tx t = []) = list_all (isspace tx) t" for t
    by (simp add: rstrip_def dropWhile_eq_Nil_conv list_all_iff)
  have b: "list_all (isspace tx) (lstrip tx s) = list_all (isspace tx) s"
  proof
    assume h: "list_all (isspace tx) (lstrip tx s)"
    show "list_all (isspace tx) s"
    proof (rule ccontr)
      assume n: "\<not> list_all (isspace tx) s"
      then have ne: "dropWhile (isspace tx) s \<noteq> []"
        by (simp add: dropWhile_eq_Nil_conv list_all_iff)
      then have "\<not> isspace tx (hd (dropWhile (isspace tx) s))"
        by (rule hd_dropWhile)
      moreover have "hd (dropWhile (isspace tx) s) \<in> set (dropWhile (isspace tx) s)"
        using ne by simp
      ultimately show False
        using h by (auto simp: lstrip_def list_all_iff)
    qed
  next
    assume "list_all (isspace tx) s"
    then show "list_all (isspace tx) (lstrip tx s)"
      using set_dropWhileD by (fastforce simp: lstrip_def list_all_iff)
  qed
  show ?thesis
    by (simp add: strip_def a b)
qed

text \<open>
  C8. For a submitted list that is not empty, the validator returns the entries that are
  neither empty nor made of whitespace only, each trimmed and uppercased, in order; the
  blank entries are dropped without an error. The returned list is never longer than the
  submitted one, it is strictly shorter when a blank entry was submitted, and it is
  empty when every submitted entry was blank.
\<close>

theorem validate_symbol_list_drops_blank:
  "validate_symbol_list tx v =
     (if v = [] then Inl (ValueError ''Symbol list cannot be empty'')
      else Inr (map (\<lambda>s. upper tx (strip tx s)) (filter (\<lambda>s. \<not> list_all (isspace tx) s) v)))
   \<and> (case validate_symbol_list tx v of Inl e \<Rightarrow> v = [] | Inr out \<Rightarrow> length out \<le> length v)
   \<and> (v \<noteq> [] \<and> list_ex (list_all (isspace tx)) v
        \<longrightarrow> (\<exists>out. validate_symbol_list tx v = Inr out \<and> length out < length v))
   \<and> (v \<noteq> [] \<and> list_all (list_all (isspace tx)) v \<longrightarrow> validate_symbol_list tx v = Inr [])"
proof -
  have a: "validate_symbol_list tx v =
     (if v = [] then Inl (ValueError ''Symbol list cannot be empty'')
      else Inr (map (\<lambda>s. upper tx (strip tx s)) (filter (\<lambda>s. \<not> list_all (isspace tx) s) v)))"
    by (simp add: validate_symbol_list_def strip_empty_iff)
  have b: "(case validate_symbol_list tx v of Inl e \<Rightarrow> v = [] | Inr out \<Rightarrow> length out \<le> length v)"
    by (simp add: validate_symbol_list_def)
  have c: "v \<noteq> [] \<and> list_ex (list_all (isspace tx)) v
        \<longrightarrow> (\<exists>out. validate_symbol_list tx v = Inr out \<and> length out < length v)"
  proof
    assume h: "v \<noteq> [] \<and> list_ex (list_all (isspace tx)) v"
    then obtain s where s: "s \<in> set v" "list_all (isspace tx) s"
      by (auto simp: list_ex_iff)
    then have "length (filter (\<lambda>s. \<not> list_all (isspace tx) s) v) < length v"
      by (auto intro: length_filter_less)
    then show "\<exists>out. validate_symbol_list tx v = Inr out \<and> length out < length v"
      using h by (simp add: a)
  qed
  have d: "v \<noteq> [] \<and> list_all (list_all (isspace tx)) v \<longrightarrow> validate_symbol_list tx v = Inr []"
  proof
    assume h: "v \<noteq> [] \<and> list_all (list_all (isspace tx)) v"
    then have "filter (\<lambda>s. \<not> list_all (isspace tx) s) v = []"
      by (simp add: filter_empty_conv list_all_iff)
    then show "validate_symbol_list tx v = Inr []"
      using h by (simp add: a)
  qed
  from a b c d show ?thesis by blast
qed

lemma ascii_blank: "list_all (isspace ascii) ''  ''"
  by (simp add: ascii_def ascii_isspace_def)

theorem validate_symbol_list_drops_blank_witness:
  "list_ex (list_all (isspace ascii)) ['' petr4 '', ''  '']
   \<and> validate_symbol_list ascii ['' petr4 '', ''  ''] = Inr [''PETR4'']
   \<and> list_all (list_all (isspace ascii)) [''  '']
   \<and> validate_symbol_list ascii [''  ''] = Inr []"
proof -
  note t = validate_symbol_list_drops_blank [of ascii "['' petr4 '', ''  '']"]
  note u = validate_symbol_list_drops_blank [of ascii "[''  '']"]
  have keep: "\<not> list_all (isspace ascii) '' petr4 ''"
    by (simp add: ascii_def ascii_isspace_def)
  have up: "upper ascii (strip ascii '' petr4 '') = ''PETR4''"
    by code_simp
  have a: "validate_symbol_list ascii ['' petr4 '', ''  ''] = Inr [''PETR4'']"
    using t keep ascii_blank up by simp
  have b: "validate_symbol_list ascii [''  ''] = Inr []"
    using u ascii_blank by simp
  from a b ascii_blank show ?thesis by simp
qed

lemma pos_neg_le:
  "length (filter (\<lambda>p. pc_pct_change p > 0) xs) + length (filter (\<lambda>p. pc_pct_change p < 0) xs)
     \<le> length xs"
  by (induction xs) auto

lemma filter_positive:
  "filter is_positive (filter (\<lambda>p. pc_error p = None) xs)
    = filter (\<lambda>p. pc_pct_change p > 0) (filter (\<lambda>p. pc_error p = None) xs)"
  by (induction xs) (auto simp: is_positive_def is_valid_def)

lemma filter_negative:
  "filter is_negative (filter (\<lambda>p. pc_error p = None) xs)
    = filter (\<lambda>p. pc_pct_change p < 0) (filter (\<lambda>p. pc_error p = None) xs)"
  by (induction xs) (auto simp: is_negative_def is_valid_def)

lemma filter_valid: "filter is_valid xs = filter (\<lambda>p. pc_error p = None) xs"
  by (induction xs) (auto simp: is_valid_def)


text \<open>
  C6. Among the entries without an error: when there is none, the sentiment is
  \<open>unknown\<close>, the counts are zero and the average change is 0; otherwise the counts are
  those of the positive and of the negative entries, and the sentiment is \<open>bullish\<close>
  exactly when the positive count exceeds 60% of the number of error-free entries,
  \<open>bearish\<close> exactly when the negative count does, and \<open>neutral\<close> exactly when neither
  does.
\<close>

theorem sentiment_by_share:
  "(let valid = filter (\<lambda>p. pc_error p = None) pcs;
        pos = length (filter (\<lambda>p. pc_pct_change p > 0) valid);
        neg = length (filter (\<lambda>p. pc_pct_change p < 0) valid);
        st = an_statistics (analyze_symbols symbols mds pcs)
    in (valid = [] \<and> market_sentiment st = ''unknown'' \<and> positive_count st = 0
          \<and> negative_count st = 0 \<and> valid_symbols st = 0 \<and> average_change st = 0)
       \<or> (valid \<noteq> [] \<and> positive_count st = pos \<and> negative_count st = neg
          \<and> valid_symbols st = length valid
          \<and> (market_sentiment st = ''bullish'') = (of_nat pos > (6 / 10 :: rat) * of_nat (length valid))
          \<and> (market_sentiment st = ''bearish'') = (of_nat neg > (6 / 10 :: rat) * of_nat (length valid))
          \<and> (market_sentiment st = ''neutral'')
              = (of_nat pos \<le> (6 / 10 :: rat) * of_nat (length valid)
                 \<and> of_nat neg \<le> (6 / 10 :: rat) * of_nat (length valid))))"
proof (cases "filter (\<lambda>p. pc_error p = None) pcs = []")
  case True
  then show ?thesis
    by (simp add: analyze_symbols_def filter_valid float_of_def)
next
  case False
  define valid where "valid = filter (\<lambda>p. pc_error p = None) pcs"
  define pos where "pos = length (filter (\<lambda>p. pc_pct_change p > 0) valid)"
  define neg where "neg = length (filter (\<lambda>p. pc_pct_change p < 0) valid)"
  have le: "pos + neg \<le> length valid"
    unfolding pos_def neg_def by (rule pos_neg_le)
  have ne: "valid \<noteq> []" using False by (simp add: valid_def)
  then have len: "0 < length valid" by simp
  have excl: "\<not> (of_nat pos > (6 / 10 :: rat) * of_nat (length valid)
               \<and> of_nat neg > (6 / 10 :: rat) * of_nat (length valid))"
  proof
    assume h: "of_nat pos > (6 / 10 :: rat) * of_nat (length valid)
               \<and> of_nat neg > (6 / 10 :: rat) * of_nat (length valid)"
    have "(of_nat pos :: rat) + of_nat neg \<le> of_nat (length valid)"
      using le by (metis of_nat_add of_nat_le_iff)
    moreover have "(0::rat) < of_nat (length valid)" using len by simp
    ultimately show False using h by linarith
  qed
  have ne0: "filter is_valid pcs \<noteq> []"
    unfolding filter_valid by (rule False)
  have st0: "an_statistics (analyze_symbols symbols mds pcs) =
     \<lparr>total_symbols = length symbols, valid_symbols = length (filter is_valid pcs),
      positive_count = length (filter is_positive (filter is_valid pcs)),
      negative_count = length (filter is_negative (filter is_valid pcs)),
      average_change = float_of (sum_list (map pc_pct_change (filter is_valid pcs))
                         / of_nat (length (filter is_valid pcs))),
      market_sentiment =
        (if of_nat (length (filter is_positive (filter is_valid pcs)))
              > of_nat (length (filter is_valid pcs)) * (6 / 10 :: rat) then ''bullish''
         else if of_nat (length (filter is_negative (filter is_valid pcs)))
              > of_nat (length (filter is_valid pcs)) * (6 / 10 :: rat) then ''bearish''
         else ''neutral'')\<rparr>"
    using ne0 by (simp add: analyze_symbols_def Let_def del: filter_filter)
  have st: "an_statistics (analyze_symbols symbols mds pcs) =
     \<lparr>total_symbols = length symbols, valid_symbols = length valid,
      positive_count = pos, negative_count = neg,
      average_change = float_of (sum_list (map pc_pct_change valid) / of_nat (length valid)),
      market_sentiment =
        (if of_nat pos > of_nat (length valid) * (6 / 10 :: rat) then ''bullish''
         else if of_nat neg > of_nat (length valid) * (6 / 10 :: rat) then ''bearish''
         else ''neutral'')\<rparr>"
    unfolding st0 pos_def neg_def valid_def
    by (simp only: filter_valid filter_positive filter_negative)
  show ?thesis
    using excl ne
    unfolding Let_def valid_def [symmetric] pos_def [symmetric] neg_def [symmetric] st
    by (auto simp: mult.commute not_less)
qed


lemma sentiment_examples:
  "market_sentiment (an_statistics (analyze_symbols [] [] (map change [1, 2, 3, - 1, 1 / 2])))
     = ''bullish''
   \<and> market_sentiment (an_statistics (analyze_symbols [] [] (map change [- 1, - 2, - 3, 1, - 1 / 2])))
     = ''bearish''
   \<and> market_sentiment (an_statistics (analyze_symbols [] [] (map change [1, - 1]))) = ''neutral''"
  by (simp add: analyze_symbols_def change_def is_valid_def is_positive_def is_negative_def)

lemma retry_loop_success:
  "i \<le> k \<Longrightarrow> k < n \<Longrightarrow> (\<forall>j. i \<le> j \<and> j < k \<longrightarrow> (\<exists>e. send j = Inl e \<and> retryable e))
   \<Longrightarrow> send k = Inr r \<Longrightarrow> n = nat (max_retries cfg)
   \<Longrightarrow> retry_loop cfg send [i..<n] io
       = (Inr r, io\<lparr>requests := requests io + (k - i) + 1,
                     sleeps := sleeps io @ replicate (k - i) (retry_delay cfg)\<rparr>)"
proof (induction "k - i" arbitrary: i io)
  case 0
  then have ik: "i = k" by simp
  have "[i..<n] = i # [Suc i..<n]"
    using 0 by (simp add: upt_conv_Cons)
  then show ?case
    using 0 ik by simp
next
  case (Suc d)
  then have lt: "i < k" by simp
  then have up: "[i..<n] = i # [Suc i..<n]"
    using Suc.prems by (simp add: upt_conv_Cons)
  obtain e where e: "send i = Inl e" "retryable e"
    using Suc.prems(3) lt by auto
  have notlast: "int i \<noteq> max_retries cfg - 1"
    using lt Suc.prems(2,5) by linarith
  have d: "d = k - Suc i" using Suc.hyps(2) by simp
  have ih: "retry_loop cfg send [Suc i..<n] io'
       = (Inr r, io'\<lparr>requests := requests io' + (k - Suc i) + 1,
                     sleeps := sleeps io' @ replicate (k - Suc i) (retry_delay cfg)\<rparr>)" for io'
    using Suc.hyps(1) [OF d, of io'] Suc.prems lt by simp
  have k: "k - i = Suc (k - Suc i)" using lt by simp
  show ?case
    unfolding up k by (simp add: e notlast ih replicate_append_same)
qed

lemma retry_loop_exhausted:
  "i < n \<Longrightarrow> (\<forall>j. i \<le> j \<and> j < n \<longrightarrow> (\<exists>e. send j = Inl e \<and> retryable e))
   \<Longrightarrow> n = nat (max_retries cfg)
   \<Longrightarrow> retry_loop cfg send [i..<n] io
       = (send (n - 1), io\<lparr>requests := requests io + (n - i),
                     sleeps := sleeps io @ replicate (n - 1 - i) (retry_delay cfg)\<rparr>)"
proof (induction "n - 1 - i" arbitrary: i io)
  case 0
  then have i: "i = n - 1" by simp
  have up: "[i..<n] = [i]"
    using 0 i by (simp add: upt_conv_Cons)
  obtain e where e: "send i = Inl e" "retryable e"
    using "0.prems" by auto
  have last: "int i = max_retries cfg - 1"
    using i "0.prems" by linarith
  have ni: "n - i = 1" using i "0.prems" by simp
  show ?case
    unfolding up using e last i ni by simp
next
  case (Suc d)
  then have lt: "Suc i < n" by simp
  then have up: "[i..<n] = i # [Suc i..<n]"
    by (simp add: upt_conv_Cons)
  obtain e where e: "send i = Inl e" "retryable e"
    using Suc.prems by auto
  have notlast: "int i \<noteq> max_retries cfg - 1"
    using lt Suc.prems by linarith
  have d: "d = n - 1 - Suc i" using Suc.hyps(2) by simp
  have ih: "retry_loop cfg send [Suc i..<n] io'
       = (send (n - 1), io'\<lparr>requests := requests io' + (n - Suc i),
                     sleeps := sleeps io' @ replicate (n - 1 - Suc i) (retry_delay cfg)\<rparr>)" for io'
    using Suc.hyps(1) [OF d lt, of io'] Suc.prems by simp
  have k: "n - 1 - i = Suc (n - 1 - Suc i)" "n - i = Suc (n - Suc i)" using lt by simp_all
  show ?case
    unfolding up k by (simp add: e notlast ih replicate_append_same)
qed

text \<open>
  C4. For \<open>post\<close> and \<open>get\<close> alike: when the first \<open>k\<close> attempts, fewer than
  \<open>max_retries\<close>, raise a timeout or a client error and the next attempt succeeds, the
  call returns that result after \<open>k + 1\<close> requests and \<open>k\<close> sleeps of \<open>retry_delay\<close>.
  When \<open>max_retries\<close> is positive and every attempt raises a timeout or a client error, the
  call raises the error of the last attempt, after exactly \<open>max_retries\<close> requests and
  \<open>max_retries - 1\<close> sleeps of \<open>retry_delay\<close>: one between consecutive attempts, none
  after the last.
\<close>

theorem post_retries:
  "(k < nat (max_retries cfg) \<and> (\<forall>j < k. \<exists>e. send j = Inl e \<and> retryable e) \<and> send k = Inr r
      \<longrightarrow> post cfg send io
            = (Inr r, io\<lparr>requests := requests io + k + 1,
                          sleeps := sleeps io @ replicate k (retry_delay cfg)\<rparr>)
          \<and> get cfg send io = post cfg send io)
   \<and> (0 < max_retries cfg \<and> (\<forall>j < nat (max_retries cfg). \<exists>e. send j = Inl e \<and> retryable e)
      \<longrightarrow> post cfg send io
            = (send (nat (max_retries cfg) - 1),
               io\<lparr>requests := requests io + nat (max_retries cfg),
                  sleeps := sleeps io @ replicate (nat (max_retries cfg) - 1) (retry_delay cfg)\<rparr>)
          \<and> get cfg send io = post cfg send io)"
proof (intro conjI impI)
  assume h: "k < nat (max_retries cfg) \<and> (\<forall>j < k. \<exists>e. send j = Inl e \<and> retryable e) \<and> send k = Inr r"
  show "post cfg send io
            = (Inr r, io\<lparr>requests := requests io + k + 1,
                          sleeps := sleeps io @ replicate k (retry_delay cfg)\<rparr>)"
    unfolding post_def
    using retry_loop_success [of 0 k "nat (max_retries cfg)" send r cfg io] h by simp
  show "get cfg send io = post cfg send io"
    by (simp add: get_def post_def)
next
  assume h: "0 < max_retries cfg \<and> (\<forall>j < nat (max_retries cfg). \<exists>e. send j = Inl e \<and> retryable e)"
  show "post cfg send io
            = (send (nat (max_retries cfg) - 1),
               io\<lparr>requests := requests io + nat (max_retries cfg),
                  sleeps := sleeps io @ replicate (nat (max_retries cfg) - 1) (retry_delay cfg)\<rparr>)"
    unfolding post_def
    using retry_loop_exhausted [of 0 "nat (max_retries cfg)" send cfg io] h by simp
  show "get cfg send io = post cfg send io"
    by (simp add: get_def post_def)
qed

theorem post_retries_witness:
  "post default_config third_time_lucky \<lparr>requests = 0, sleeps = []\<rparr>
     = (Inr ''ok'', \<lparr>requests = 3, sleeps = [1, 1]\<rparr>)
   \<and> post default_config always_failing \<lparr>requests = 0, sleeps = []\<rparr>
     = (Inl (ClientError ''reset''), \<lparr>requests = 3, sleeps = [1, 1]\<rparr>)"
proof -
  have a: "post default_config third_time_lucky \<lparr>requests = 0, sleeps = []\<rparr>
     = (Inr ''ok'', \<lparr>requests = 3, sleeps = [1, 1]\<rparr>)"
    using post_retries [of 2 default_config third_time_lucky "''ok''" "\<lparr>requests = 0, sleeps = []\<rparr>"]
    by (simp add: default_config_def third_time_lucky_def less_Suc_eq numeral_2_eq_2)
  have b: "post default_config always_failing \<lparr>requests = 0, sleeps = []\<rparr>
     = (Inl (ClientError ''reset''), \<lparr>requests = 3, sleeps = [1, 1]\<rparr>)"
    using post_retries [of 0 default_config always_failing "''ok''" "\<lparr>requests = 0, sleeps = []\<rparr>"]
    by (simp add: default_config_def always_failing_def numeral_2_eq_2)
  from a b show ?thesis by simp
qed

lemma map_to_ticker_same_reads:
  assumes num: "\<And>k. dict_get d k (JNum 0) = dict_get d' k (JNum 0)"
    and tm: "dict_get d ''time'' (JStr []) = dict_get d' ''time'' (JStr [])"
  shows "map_to_ticker pd sp now d smb = map_to_ticker pd sp now d' smb"
  unfolding map_to_ticker_def num tm by (rule refl)

lemma missing_number_as_zero:
  assumes "d k = None" and "k \<noteq> ''time''"
  shows "map_to_ticker pd sp now d smb = map_to_ticker pd sp now (d(k \<mapsto> JNum 0)) smb"
proof (rule map_to_ticker_same_reads)
  show "dict_get d k' (JNum 0) = dict_get (d(k \<mapsto> JNum 0)) k' (JNum 0)" for k'
    using assms(1) by (simp add: dict_get_def)
  show "dict_get d ''time'' (JStr []) = dict_get (d(k \<mapsto> JNum 0)) ''time'' (JStr [])"
    using assms(2) by (simp add: dict_get_def)
qed

lemma Ticker_with_volume_time:
  "Ticker_with_volume smb tm opn hi lo cl v = Inr t \<Longrightarrow> t_time t = tm"
  by (cases v) (auto simp: client_Ticker_def split: if_splits sum.splits)

lemma map_to_ticker_time:
  assumes "map_to_ticker pd sp now d smb = Inr t"
  shows "time_of sp now (dict_get d ''time'' (JStr [])) = Inr (t_time t)"
proof (cases "time_of sp now (dict_get d ''time'' (JStr []))")
  case (Inl e)
  then show ?thesis
    using assms by (simp add: map_to_ticker_def)
next
  case (Inr tm)
  then have "t_time t = tm"
    using assms
    by (auto simp: map_to_ticker_def split: sum.splits dest: Ticker_with_volume_time)
  then show ?thesis
    using Inr by simp
qed

text \<open>
  C9. For every JSON object the ticker adapter maps: a missing \<open>open\<close>, \<open>high\<close>,
  \<open>low\<close>, \<open>close\<close> or \<open>volume\<close> gives the result that the same object with that field
  set to 0 gives; when \<open>time\<close> is missing or the empty string, the ticker built carries
  the current time; and the object without any field maps, for a symbol name that is not
  empty, to the valid candle with all prices and the volume zero and the current time,
  not to an error.
\<close>

theorem map_to_ticker_defaults:
  "(d ''open'' = None \<longrightarrow>
      map_to_ticker pd sp now d smb = map_to_ticker pd sp now (d(''open'' \<mapsto> JNum 0)) smb)
   \<and> (d ''high'' = None \<longrightarrow>
      map_to_ticker pd sp now d smb = map_to_ticker pd sp now (d(''high'' \<mapsto> JNum 0)) smb)
   \<and> (d ''low'' = None \<longrightarrow>
      map_to_ticker pd sp now d smb = map_to_ticker pd sp now (d(''low'' \<mapsto> JNum 0)) smb)
   \<and> (d ''close'' = None \<longrightarrow>
      map_to_ticker pd sp now d smb = map_to_ticker pd sp now (d(''close'' \<mapsto> JNum 0)) smb)
   \<and> (d ''volume'' = None \<longrightarrow>
      map_to_ticker pd sp now d smb = map_to_ticker pd sp now (d(''volume'' \<mapsto> JNum 0)) smb)
   \<and> ((d ''time'' = None \<or> d ''time'' = Some (JStr [])) \<and> map_to_ticker pd sp now d smb = Inr t
      \<longrightarrow> t_time t = now)
   \<and> (smb \<noteq> [] \<longrightarrow>
      map_to_ticker pd sp now Map.empty smb
        = Inr \<lparr>t_symbol = smb, t_time = now, t_open = 0, t_high = 0, t_low = 0, t_close = 0,
               t_volume = 0\<rparr>)"
proof (intro conjI impI)
  assume "d ''open'' = None"
  then show "map_to_ticker pd sp now d smb = map_to_ticker pd sp now (d(''open'' \<mapsto> JNum 0)) smb"
    by (rule missing_number_as_zero) simp
next
  assume "d ''high'' = None"
  then show "map_to_ticker pd sp now d smb = map_to_ticker pd sp now (d(''high'' \<mapsto> JNum 0)) smb"
    by (rule missing_number_as_zero) simp
next
  assume "d ''low'' = None"
  then show "map_to_ticker pd sp now d smb = map_to_ticker pd sp now (d(''low'' \<mapsto> JNum 0)) smb"
    by (rule missing_number_as_zero) simp
next
  assume "d ''close'' = None"
  then show "map_to_ticker pd sp now d smb = map_to_ticker pd sp now (d(''close'' \<mapsto> JNum 0)) smb"
    by (rule missing_number_as_zero) simp
next
  assume "d ''volume'' = None"
  then show "map_to_ticker pd sp now d smb = map_to_ticker pd sp now (d(''volume'' \<mapsto> JNum 0)) smb"
    by (rule missing_number_as_zero) simp
next
  assume h: "(d ''time'' = None \<or> d ''time'' = Some (JStr [])) \<and> map_to_ticker pd sp now d smb = Inr t"
  then have "time_of sp now (dict_get d ''time'' (JStr [])) = Inr now"
    by (auto simp: dict_get_def)
  moreover have "time_of sp now (dict_get d ''time'' (JStr [])) = Inr (t_time t)"
    using h map_to_ticker_time by blast
  ultimately show "t_time t = now" by simp
next
  assume "smb \<noteq> []"
  then show "map_to_ticker pd sp now Map.empty smb
        = Inr \<lparr>t_symbol = smb, t_time = now, t_open = 0, t_high = 0, t_low = 0, t_close = 0,
               t_volume = 0\<rparr>"
    by (simp add: map_to_ticker_def dict_get_def client_Ticker_def)
qed

lemma high_low_only_ticker:
  "map_to_ticker no_decimal no_time clock high_low_only ''EURUSD''
     = Inr \<lparr>t_symbol = ''EURUSD'', t_time = clock, t_open = 0, t_high = 2, t_low = - 1,
            t_close = 0, t_volume = 0\<rparr>"
  by (simp add: map_to_ticker_def dict_get_def client_Ticker_def high_low_only_def)

theorem map_to_ticker_defaults_witness:
  "map_to_ticker no_decimal no_time clock high_low_only ''EURUSD''
     = map_to_ticker no_decimal no_time clock (high_low_only(''open'' \<mapsto> JNum 0)) ''EURUSD''
   \<and> map_to_ticker no_decimal no_time clock high_low_only ''EURUSD''
     = map_to_ticker no_decimal no_time clock (high_low_only(''close'' \<mapsto> JNum 0)) ''EURUSD''
   \<and> map_to_ticker no_decimal no_time clock high_low_only ''EURUSD''
     = map_to_ticker no_decimal no_time clock (high_low_only(''volume'' \<mapsto> JNum 0)) ''EURUSD''
   \<and> map_to_ticker no_decimal no_time clock Map.empty ''EURUSD''
     = map_to_ticker no_decimal no_time clock [''high'' \<mapsto> JNum 0] ''EURUSD''
   \<and> map_to_ticker no_decimal no_time clock Map.empty ''EURUSD''
     = map_to_ticker no_decimal no_time clock [''low'' \<mapsto> JNum 0] ''EURUSD''
   \<and> t_time \<lparr>t_symbol = ''EURUSD'', t_time = clock, t_open = 0, t_high = 2, t_low = - 1,
            t_close = 0, t_volume = 0\<rparr> = clock
   \<and> map_to_ticker no_decimal no_time clock Map.empty ''EURUSD''
     = Inr (zero_candle\<lparr>t_time := clock\<rparr>)"
proof -
  have a: "high_low_only ''open'' = None" "high_low_only ''close'' = None"
    "high_low_only ''volume'' = None" "high_low_only ''time'' = Some (JStr [])"
    by (simp_all add: high_low_only_def)
  note h = map_to_ticker_defaults [of high_low_only no_decimal no_time clock "''EURUSD''"
      "\<lparr>t_symbol = ''EURUSD'', t_time = clock, t_open = 0, t_high = 2, t_low = - 1,
            t_close = 0, t_volume = 0\<rparr>"]
  note e = map_to_ticker_defaults [of Map.empty no_decimal no_time clock "''EURUSD''"
      "zero_candle\<lparr>t_time := clock\<rparr>"]
  have c1: "map_to_ticker no_decimal no_time clock high_low_only ''EURUSD''
     = map_to_ticker no_decimal no_time clock (high_low_only(''open'' \<mapsto> JNum 0)) ''EURUSD''"
    using h a(1) by blast
  have c2: "map_to_ticker no_decimal no_time clock high_low_only ''EURUSD''
     = map_to_ticker no_decimal no_time clock (high_low_only(''close'' \<mapsto> JNum 0)) ''EURUSD''"
    using h a(2) by blast
  have c3: "map_to_ticker no_decimal no_time clock high_low_only ''EURUSD''
     = map_to_ticker no_decimal no_time clock (high_low_only(''volume'' \<mapsto> JNum 0)) ''EURUSD''"
    using h a(3) by blast
  have c4: "map_to_ticker no_decimal no_time clock Map.empty ''EURUSD''
     = map_to_ticker no_decimal no_time clock [''high'' \<mapsto> JNum 0] ''EURUSD''"
    using e by blast
  have c5: "map_to_ticker no_decimal no_time clock Map.empty ''EURUSD''
     = map_to_ticker no_decimal no_time clock [''low'' \<mapsto> JNum 0] ''EURUSD''"
    using e by blast
  have c6: "t_time \<lparr>t_symbol = ''EURUSD'', t_time = clock, t_open = 0, t_high = 2, t_low = - 1,
            t_close = 0, t_volume = 0\<rparr> = clock"
    using h a(4) high_low_only_ticker by blast
  have ne: "''EURUSD'' \<noteq> []" by simp
  have c7': "map_to_ticker no_decimal no_time clock Map.empty ''EURUSD''
     = Inr \<lparr>t_symbol = ''EURUSD'', t_time = clock, t_open = 0, t_high = 0, t_low = 0,
            t_close = 0, t_volume = 0\<rparr>"
    using e ne by blast
  have c7: "map_to_ticker no_decimal no_time clock Map.empty ''EURUSD''
     = Inr (zero_candle\<lparr>t_time := clock\<rparr>)"
    using c7' by (simp add: zero_candle_def)
  from c1 c2 c3 c4 c5 c6 c7 show ?thesis by blast
qed













end
